theory Spec2Isabelle
  imports Complex_Main "HOL-Library.Sublist"
begin

section \<open>Sprint burndown chart generator (chart.py)\<close>

text \<open>
  A shallow embedding of the class \<open>GitHubProjectsBurndownChart\<close> of \<open>chart.py\<close>:
  the item normaliser (\<open>_extract_story_points\<close>, \<open>_get_item_sprint\<close>,
  \<open>process_project_data\<close>), the burndown calculator (\<open>calculate_burndown_data\<close>),
  the file output of the two renderers and the driver \<open>run\<close>.

  Modelling conventions.
  \<^item> Python \<open>str\<close> is \<open>string\<close>; \<open>str.lower\<close> is modelled on the ASCII letters and the
    regular expression class \<open>\\d\<close> on the ASCII digits.
  \<^item> Python \<open>float\<close> is modelled by the exact rationals \<open>rat\<close>: every value is finite and
    arithmetic does not round.
  \<^item> A JSON key that is missing and a key whose value is \<open>null\<close> are both \<open>None\<close>; the
    source tests them together (\<open>"number" in v and v["number"] is not None\<close>) or by
    truthiness (\<open>"text" in v and v["text"]\<close>).
  \<^item> Library functions whose code is not part of the repository (\<open>float\<close> on an arbitrary
    text, \<open>datetime.fromisoformat\<close>) are parameters of the functions that call them; they
    return \<open>None\<close> where the library raises.
\<close>

subsection \<open>Strings\<close>

definition lower_char :: "char \<Rightarrow> char" where
  "lower_char c =
     (let n = (of_char c :: nat) in if 65 \<le> n \<and> n \<le> 90 then char_of (n + 32) else c)"

text \<open>\<open>s.lower()\<close>\<close>

definition lower :: "string \<Rightarrow> string" where
  "lower s = map lower_char s"

text \<open>\<open>a in b\<close> on strings: \<open>a\<close> occurs in \<open>b\<close> as a contiguous block.\<close>

fun str_in :: "string \<Rightarrow> string \<Rightarrow> bool" where
  "str_in a [] = (a = [])"
| "str_in a (c # cs) = (prefix a (c # cs) \<or> str_in a cs)"

text \<open>
  \<open>s.replace(old, new)\<close> for a non-empty \<open>old\<close>: every occurrence, left to right, without
  overlap. Both calls of the source pass a non-empty literal (\<open>"Z"\<close>, \<open>".png"\<close>).
\<close>

function replace :: "string \<Rightarrow> string \<Rightarrow> string \<Rightarrow> string" where
  "replace old new [] = []"
| "replace old new (c # cs) =
     (if old \<noteq> [] \<and> prefix old (c # cs)
      then new @ replace old new (drop (length old) (c # cs))
      else c # replace old new cs)"
  by pat_completeness auto
termination
  by (relation "measure (\<lambda>(old, new, s). length s)") (auto simp: Suc_le_eq)

text \<open>Truthiness of an optional string: present and not empty.\<close>

fun truthy :: "string option \<Rightarrow> bool" where
  "truthy None = False"
| "truthy (Some s) = (s \<noteq> [])"

subsection \<open>Raw items\<close>

text \<open>
  One node of \<open>fieldValues.nodes\<close>. \<open>fv_field\<close> is
  \<open>(v.get("field", {}) or {}).get("name", "")\<close>, the empty string when there is none.
\<close>

record field_value =
  fv_field :: string
  fv_name :: "string option"
  fv_text :: "string option"
  fv_number :: "rat option"

text \<open>
  The \<open>content\<close> of an item (an Issue or a PullRequest). \<open>labels\<close> is the list of
  \<open>lbl.get("name", "")\<close> over \<open>content.labels.nodes\<close>, empty for a PullRequest.
  \<open>c_title\<close> and \<open>c_state\<close> are the keys \<open>title\<close> and \<open>state\<close>.
\<close>

record item_content =
  c_title :: "string option"
  c_state :: "string option"
  createdAt :: "string option"
  closedAt :: "string option"
  labels :: "string list"

text \<open>\<open>content = None\<close> stands for a missing, \<open>null\<close> or empty \<open>content\<close>.\<close>

record raw_item =
  content :: "item_content option"
  fieldValues :: "field_value list"

subsection \<open>\<open>_extract_story_points\<close>\<close>

text \<open>\<open>fname and fname.lower() == name.lower()\<close>\<close>

definition field_is :: "string \<Rightarrow> field_value \<Rightarrow> bool" where
  "field_is name v = (fv_field v \<noteq> [] \<and> lower (fv_field v) = lower name)"

text \<open>
  The body shared by the two loops over the field values: the number if there is one, else
  the text if it is not empty and \<open>float\<close> accepts it, else nothing (the loop goes on).
\<close>

definition value_of :: "(string \<Rightarrow> rat option) \<Rightarrow> field_value \<Rightarrow> rat option" where
  "value_of float v =
     (case fv_number v of
        Some n \<Rightarrow> Some n
      | None \<Rightarrow> (case fv_text v of
                   None \<Rightarrow> None
                 | Some t \<Rightarrow> if t \<noteq> [] then float t else None))"

text \<open>The first loop: \<open>for v in fv\<close> under \<open>if points_field_name\<close>.\<close>

fun named_scan :: "(string \<Rightarrow> rat option) \<Rightarrow> string \<Rightarrow> field_value list \<Rightarrow> rat option" where
  "named_scan float name [] = None"
| "named_scan float name (v # vs) =
     (if field_is name v
      then (case value_of float v of Some x \<Rightarrow> Some x | None \<Rightarrow> named_scan float name vs)
      else named_scan float name vs)"

text \<open>The second loop: \<open>for v in fv\<close>, any field.\<close>

fun any_scan :: "(string \<Rightarrow> rat option) \<Rightarrow> field_value list \<Rightarrow> rat option" where
  "any_scan float [] = None"
| "any_scan float (v # vs) =
     (case value_of float v of Some x \<Rightarrow> Some x | None \<Rightarrow> any_scan float vs)"

definition is_digit :: "char \<Rightarrow> bool" where
  "is_digit c = (let n = (of_char c :: nat) in 48 \<le> n \<and> n \<le> 57)"

text \<open>
  A match of \<open>(\\d+(\\.\\d+)?)\<close> that starts at the head of the string, which is a digit:
  the longest run of digits, then a dot and the longest run of digits if there is at least
  one.
\<close>

definition match_here :: "string \<Rightarrow> string" where
  "match_here s =
     (let ds = takeWhile is_digit s in
      case dropWhile is_digit s of
        [] \<Rightarrow> ds
      | c # r \<Rightarrow> if c = CHR ''.'' \<and> takeWhile is_digit r \<noteq> []
                 then ds @ [c] @ takeWhile is_digit r else ds)"

text \<open>\<open>re.search(r"(\\d+(\\.\\d+)?)", name)\<close>: the leftmost match, \<open>m.group(1)\<close>.\<close>

fun re_search :: "string \<Rightarrow> string option" where
  "re_search [] = None"
| "re_search (c # cs) = (if is_digit c then Some (match_here (c # cs)) else re_search cs)"

definition digit_val :: "char \<Rightarrow> nat" where
  "digit_val c = of_char c - 48"

definition digits_val :: "string \<Rightarrow> nat" where
  "digits_val s = foldl (\<lambda>a c. 10 * a + digit_val c) 0 s"

text \<open>\<open>float\<close> on a text of the form \<open>\\d+(\\.\\d+)?\<close>, the decimal it writes.\<close>

definition float_of_decimal :: "string \<Rightarrow> rat" where
  "float_of_decimal s =
     (let ip = takeWhile is_digit s; fp = drop (Suc (length ip)) s
      in of_nat (digits_val ip) + of_nat (digits_val fp) / 10 ^ length fp)"

text \<open>The third loop: \<open>for lbl in labels\<close>.\<close>

fun label_scan :: "string list \<Rightarrow> rat option" where
  "label_scan [] = None"
| "label_scan (name # rest) =
     (case re_search name of Some g \<Rightarrow> Some (float_of_decimal g) | None \<Rightarrow> label_scan rest)"

text \<open>\<open>(item.get("content", {}) or {}).get("labels", {}).get("nodes", [])\<close>, the names.\<close>

definition item_labels :: "raw_item \<Rightarrow> string list" where
  "item_labels it = (case content it of None \<Rightarrow> [] | Some c \<Rightarrow> labels c)"

definition extract_story_points ::
  "(string \<Rightarrow> rat option) \<Rightarrow> raw_item \<Rightarrow> string option \<Rightarrow> rat" where
  "extract_story_points float it points_field_name =
     (case (case points_field_name of
              None \<Rightarrow> None
            | Some name \<Rightarrow> if name \<noteq> [] then named_scan float name (fieldValues it) else None) of
        Some x \<Rightarrow> x
      | None \<Rightarrow>
          (case any_scan float (fieldValues it) of
             Some x \<Rightarrow> x
           | None \<Rightarrow>
               (case label_scan (item_labels it) of
                  Some x \<Rightarrow> x
                | None \<Rightarrow> 1)))"

subsection \<open>\<open>_get_item_sprint\<close>\<close>

text \<open>The function returns a string (a field's value) or the list of label names.\<close>

datatype item_sprint = Str string | Lst "string list"

text \<open>\<open>sprint_field_name and fname and fname.lower() == sprint_field_name.lower()\<close>\<close>

fun sprint_field_is :: "string option \<Rightarrow> field_value \<Rightarrow> bool" where
  "sprint_field_is None v = False"
| "sprint_field_is (Some name) v = (name \<noteq> [] \<and> field_is name v)"

fun sprint_scan :: "string option \<Rightarrow> field_value list \<Rightarrow> string option" where
  "sprint_scan sprint_field_name [] = None"
| "sprint_scan sprint_field_name (v # vs) =
     (if sprint_field_is sprint_field_name v
      then (if truthy (fv_name v) then fv_name v
            else if truthy (fv_text v) then fv_text v
            else sprint_scan sprint_field_name vs)
      else sprint_scan sprint_field_name vs)"

definition get_item_sprint :: "raw_item \<Rightarrow> string option \<Rightarrow> item_sprint" where
  "get_item_sprint it sprint_field_name =
     (case sprint_scan sprint_field_name (fieldValues it) of
        Some s \<Rightarrow> Str s
      | None \<Rightarrow> Lst (item_labels it))"

subsection \<open>Dates and times\<close>

text \<open>
  A naive \<open>datetime\<close> is the number of microseconds between the midnight before
  0001-01-01 (the day of ordinal 0) and its wall-clock time, so that \<open>d.date()\<close> is the
  whole number of days, the proleptic Gregorian ordinal of the day. A \<open>timedelta\<close> is a
  number of microseconds; Python normalises it so that \<open>.days\<close> is the floor of the
  quotient by a day. \<open>sprint_start\<close> and \<open>sprint_end\<close> are naive, as
  \<open>datetime.fromisoformat\<close> gives them for the ISO dates of the configuration; of a
  \<open>closed_at\<close> only \<open>.date()\<close> is used, the day of its own wall clock.
\<close>

type_synonym datetime = int

definition DAY :: int where
  "DAY = 86400000000"

definition date :: "datetime \<Rightarrow> int" where
  "date d = d div DAY"

definition days :: "int \<Rightarrow> int" where
  "days td = td div DAY"

text \<open>\<open>date.max.toordinal()\<close>, the ordinal of 9999-12-31.\<close>

definition MAXORDINAL :: int where
  "MAXORDINAL = 3652059"

datatype error = ValueError | OverflowError | ZeroDivisionError | RuntimeError string

text \<open>\<open>d + td\<close>: \<open>OverflowError\<close> when the day leaves the years 1 to 9999.\<close>

definition dt_add :: "datetime \<Rightarrow> int \<Rightarrow> error + datetime" where
  "dt_add d td =
     (if date (d + td) < 1 \<or> MAXORDINAL < date (d + td) then Inl OverflowError
      else Inr (d + td))"

text \<open>The ordinal of a calendar day, as \<open>date(y, m, d).toordinal()\<close> computes it.\<close>

definition is_leap :: "int \<Rightarrow> bool" where
  "is_leap y = (y mod 4 = 0 \<and> (y mod 100 \<noteq> 0 \<or> y mod 400 = 0))"

definition days_before_year :: "int \<Rightarrow> int" where
  "days_before_year y = (y - 1) * 365 + (y - 1) div 4 - (y - 1) div 100 + (y - 1) div 400"

definition days_before_month :: "int \<Rightarrow> nat \<Rightarrow> int" where
  "days_before_month y m =
     sum_list (take (m - 1) [31, if is_leap y then 29 else 28, 31, 30, 31, 30, 31, 31, 30, 31, 30, 31])"

definition toordinal :: "int \<Rightarrow> nat \<Rightarrow> int \<Rightarrow> int" where
  "toordinal y m d = days_before_year y + days_before_month y m + d"

text \<open>\<open>datetime(y, m, d, hh, mm)\<close>\<close>

definition datetime_of :: "int \<Rightarrow> nat \<Rightarrow> int \<Rightarrow> int \<Rightarrow> int \<Rightarrow> datetime" where
  "datetime_of y m d hh mm = toordinal y m d * DAY + (hh * 60 + mm) * 60000000"

subsection \<open>\<open>process_project_data\<close>\<close>

record config =
  cfg_project_type :: "string option"
  cfg_sprint_label :: "string option"
  cfg_sprint_field :: "string option"
  cfg_points_field :: "string option"
  cfg_planned_points :: "rat option"
  cfg_save_path :: "string option"
  cfg_chart_type :: "string option"
  cfg_sprint_start :: string
  cfg_sprint_end :: string

text \<open>An element of the list \<open>filtered\<close>.\<close>

record entry =
  title :: string
  story_points :: rat
  created_at :: "datetime option"
  closed_at :: "datetime option"
  state :: "string option"

text \<open>The dictionary that \<open>process_project_data\<close> returns.\<close>

record project_data =
  project_name :: "string option"
  items :: "entry list"
  total_points :: rat
  sprint_start :: datetime
  sprint_end :: datetime

text \<open>
  The fetched response. \<open>p_title\<close> is \<open>project.get("title")\<close>, \<open>p_items\<close> is
  \<open>project.get("items", {}).get("nodes", [])\<close>; \<open>organization\<close> and \<open>repository\<close> are
  \<open>raw["data"].get(..., {}).get("projectV2")\<close>, \<open>None\<close> when the result is not truthy; \<open>data\<close> is
  \<open>None\<close> when the key \<open>"data"\<close> is not in the response.
\<close>

record project_node =
  p_title :: "string option"
  p_items :: "raw_item list"

record response_data =
  organization :: "project_node option"
  repository :: "project_node option"

record raw_response =
  data :: "response_data option"

text \<open>\<open>sprint_label and sprint_label.lower() in str(item_sprint).lower()\<close>\<close>

fun label_within :: "string option \<Rightarrow> string \<Rightarrow> bool" where
  "label_within None s = False"
| "label_within (Some l) s = (l \<noteq> [] \<and> str_in (lower l) (lower s))"

text \<open>
  The label branch: \<open>any(sprint_label.lower() == lbl.lower() for lbl in item_sprint)\<close> if
  \<open>sprint_label\<close>, else \<open>True\<close>.
\<close>

fun label_among :: "string option \<Rightarrow> string list \<Rightarrow> bool" where
  "label_among None ls = True"
| "label_among (Some l) ls = (if l \<noteq> [] then list_ex (\<lambda>lbl. lower l = lower lbl) ls else True)"

text \<open>The value of the variable \<open>include\<close> at \<open>if not include\<close>.\<close>

definition include_item :: "config \<Rightarrow> raw_item \<Rightarrow> bool" where
  "include_item cfg it =
     (let item_sprint = get_item_sprint it (cfg_sprint_field cfg) in
      if truthy (cfg_sprint_field cfg)
      then (case item_sprint of
              Str s \<Rightarrow> label_within (cfg_sprint_label cfg) s
            | Lst ls \<Rightarrow> False)
      else (case item_sprint of
              Lst ls \<Rightarrow> label_among (cfg_sprint_label cfg) ls
            | Str s \<Rightarrow> False))"

text \<open>
  \<open>datetime.fromisoformat(s.replace("Z", "+00:00")) if s else None\<close>; \<open>fromisoformat\<close>
  returns \<open>None\<close> where the library raises.
\<close>

fun parse_timestamp :: "(string \<Rightarrow> datetime option) \<Rightarrow> string option \<Rightarrow> error + datetime option" where
  "parse_timestamp fromisoformat None = Inr None"
| "parse_timestamp fromisoformat (Some s) =
     (if s \<noteq> []
      then (case fromisoformat (replace ''Z'' ''+00:00'' s) of
              None \<Rightarrow> Inl ValueError
            | Some d \<Rightarrow> Inr (Some d))
      else Inr None)"

text \<open>The \<open>try\<close> block: \<open>(created_dt, closed_dt)\<close>, both \<open>None\<close> in the handler.\<close>

definition parse_times ::
  "(string \<Rightarrow> datetime option) \<Rightarrow> string option \<Rightarrow> string option
     \<Rightarrow> datetime option \<times> datetime option" where
  "parse_times fromisoformat created closed_s =
     (case parse_timestamp fromisoformat created of
        Inl e \<Rightarrow> (None, None)
      | Inr created_dt \<Rightarrow>
          (case parse_timestamp fromisoformat closed_s of
             Inl e \<Rightarrow> (None, None)
           | Inr closed_dt \<Rightarrow> (created_dt, closed_dt)))"

text \<open>The dictionary \<open>entry\<close> built for an item that passed the filter.\<close>

definition make_entry ::
  "(string \<Rightarrow> rat option) \<Rightarrow> (string \<Rightarrow> datetime option) \<Rightarrow> config \<Rightarrow> raw_item
     \<Rightarrow> item_content \<Rightarrow> entry" where
  "make_entry float fromisoformat cfg it c =
     (let sp = extract_story_points float it (cfg_points_field cfg);
          (created_dt, closed_dt) = parse_times fromisoformat (createdAt c) (closedAt c)
      in \<lparr>title = (case c_title c of None \<Rightarrow> [] | Some t \<Rightarrow> t),
          story_points = sp,
          created_at = created_dt,
          closed_at = closed_dt,
          state = c_state c\<rparr>)"

text \<open>The loop \<open>for it in items\<close>, on the pair \<open>(filtered, total_points)\<close> (here \<open>total_pts\<close>).\<close>

fun process_items ::
  "(string \<Rightarrow> rat option) \<Rightarrow> (string \<Rightarrow> datetime option) \<Rightarrow> config \<Rightarrow> raw_item list
     \<Rightarrow> entry list \<times> rat \<Rightarrow> entry list \<times> rat" where
  "process_items float fromisoformat cfg [] (filtered, total_pts) = (filtered, total_pts)"
| "process_items float fromisoformat cfg (it # its) (filtered, total_pts) =
     (case content it of
        None \<Rightarrow> process_items float fromisoformat cfg its (filtered, total_pts)
      | Some c \<Rightarrow>
          if \<not> include_item cfg it
          then process_items float fromisoformat cfg its (filtered, total_pts)
          else (let e = make_entry float fromisoformat cfg it c
                in process_items float fromisoformat cfg its
                     (filtered @ [e], total_pts + story_points e)))"

text \<open>\<open>cfg.get("project_type", "organization")\<close>\<close>

definition project_type :: "config \<Rightarrow> string" where
  "project_type cfg = (case cfg_project_type cfg of None \<Rightarrow> ''organization'' | Some t \<Rightarrow> t)"

text \<open>
  \<open>raw = None\<close> is a response that is not truthy. The result \<open>None\<close> is the \<open>return None\<close>
  of the two guards; the messages they print are not modelled.
\<close>

definition process_project_data ::
  "(string \<Rightarrow> rat option) \<Rightarrow> (string \<Rightarrow> datetime option) \<Rightarrow> config
     \<Rightarrow> raw_response option \<Rightarrow> datetime \<Rightarrow> datetime \<Rightarrow> project_data option" where
  "process_project_data float fromisoformat cfg raw start finish =
     (case raw of
        None \<Rightarrow> None
      | Some r \<Rightarrow>
          (case data r of
             None \<Rightarrow> None
           | Some d \<Rightarrow>
               (case (if project_type cfg = ''organization'' then organization d
                      else repository d) of
                  None \<Rightarrow> None
                | Some project \<Rightarrow>
                    (let (filtered, total_pts) =
                           process_items float fromisoformat cfg (p_items project) ([], 0)
                     in Some \<lparr>project_name = p_title project,
                               items = filtered,
                               total_points = total_pts,
                               sprint_start = start,
                               sprint_end = finish\<rparr>))))"

subsection \<open>\<open>calculate_burndown_data\<close>\<close>

text \<open>The dictionary that \<open>calculate_burndown_data\<close> returns.\<close>

record series =
  dates :: "datetime list"
  remaining :: "rat list"
  ideal :: "rat list"
  series_total_points :: rat

text \<open>\<open>i["closed_at"] and i["closed_at"].date() <= current.date()\<close>\<close>

definition closed_by :: "datetime \<Rightarrow> entry \<Rightarrow> bool" where
  "closed_by current i =
     (case closed_at i of None \<Rightarrow> False | Some c \<Rightarrow> date c \<le> date current)"

text \<open>\<open>sum(i["story_points"] for i in items if ...)\<close>\<close>

definition done_points :: "entry list \<Rightarrow> datetime \<Rightarrow> rat" where
  "done_points its current = sum_list (map story_points (filter (closed_by current) its))"

text \<open>\<open>a / b\<close> with an integer divisor.\<close>

definition py_div :: "rat \<Rightarrow> int \<Rightarrow> error + rat" where
  "py_div a b = (if b = 0 then Inl ZeroDivisionError else Inr (a / of_int b))"

text \<open>
  The \<open>while\<close> loop, on the three lists it appends to. \<open>total_pts\<close> is the variable
  \<open>total_points\<close>, \<open>start\<close> and \<open>finish\<close> are \<open>sprint_start\<close> and \<open>sprint_end\<close>.
\<close>

function burndown_loop ::
  "entry list \<Rightarrow> rat \<Rightarrow> rat \<Rightarrow> datetime \<Rightarrow> datetime \<Rightarrow> datetime
     \<Rightarrow> datetime list \<times> rat list \<times> rat list
     \<Rightarrow> error + datetime list \<times> rat list \<times> rat list" where
  "burndown_loop its total_pts daily start finish current (ds, rs, ids) =
     (if current \<le> finish
      then (let done = done_points its current;
                rem = max 0 (total_pts - done);
                elapsed = days (current - start);
                ideal_rem = max 0 (total_pts - daily * of_int elapsed)
            in case dt_add current DAY of
                 Inl e \<Rightarrow> Inl e
               | Inr next \<Rightarrow>
                   burndown_loop its total_pts daily start finish next
                     (ds @ [current], rs @ [rem], ids @ [ideal_rem]))
      else Inr (ds, rs, ids))"
  by pat_completeness auto
termination
  by (relation "measure (\<lambda>(its, total_pts, daily, start, finish, current, acc).
                  nat (finish - current + 1))")
     (auto simp: dt_add_def DAY_def split: if_splits)

declare burndown_loop.simps [simp del]

definition calculate_burndown_data :: "project_data \<Rightarrow> rat option \<Rightarrow> error + series" where
  "calculate_burndown_data pdata planned_points =
     (let start = sprint_start pdata;
          finish = sprint_end pdata;
          total_pts = (case planned_points of Some p \<Rightarrow> p | None \<Rightarrow> total_points pdata);
          n = max 1 (days (finish - start))
      in case py_div total_pts n of
           Inl e \<Rightarrow> Inl e
         | Inr daily \<Rightarrow>
             (case burndown_loop (items pdata) total_pts daily start finish start ([], [], []) of
                Inl e \<Rightarrow> Inl e
              | Inr (ds, rs, ids) \<Rightarrow>
                  Inr \<lparr>dates = ds, remaining = rs, ideal = ids,
                       series_total_points = total_pts\<rparr>))"

subsection \<open>The renderers and \<open>run\<close>\<close>

text \<open>
  What a run leaves behind: the files written and the figures shown, in order. The text
  printed on the way is not modelled.
\<close>

datatype effect =
    Savefig string
  | PltShow
  | WriteHtml string
  | WriteImage string
  | FigShow

text \<open>
  The paths \<open>create_matplotlib_chart\<close> and \<open>create_plotly_chart\<close> write to do not depend
  on the data drawn. \<open>kaleido\<close> tells whether \<open>fig.write_image\<close> succeeds; its failure is
  caught.
\<close>

fun create_matplotlib_chart :: "series \<Rightarrow> string option \<Rightarrow> string option \<Rightarrow> effect list" where
  "create_matplotlib_chart bd name None = [PltShow]"
| "create_matplotlib_chart bd name (Some save_path) =
     (if save_path \<noteq> [] then [Savefig save_path, PltShow] else [PltShow])"

text \<open>\<open>html_path = save_path.replace(".png", ".html")\<close>\<close>

definition html_path :: "string \<Rightarrow> string" where
  "html_path save_path = replace ''.png'' ''.html'' save_path"

fun create_plotly_chart ::
  "bool \<Rightarrow> series \<Rightarrow> string option \<Rightarrow> string option \<Rightarrow> effect list" where
  "create_plotly_chart kaleido bd name None = [FigShow]"
| "create_plotly_chart kaleido bd name (Some save_path) =
     (if save_path \<noteq> []
      then [WriteHtml (html_path save_path)]
           @ (if kaleido then [WriteImage save_path] else [])
           @ [FigShow]
      else [FigShow])"

record run_result =
  project :: project_data
  burndown :: series

text \<open>\<open>cfg.get("chart_type", "both")\<close>\<close>

definition chart_type :: "config \<Rightarrow> string" where
  "chart_type cfg = (case cfg_chart_type cfg of None \<Rightarrow> ''both'' | Some t \<Rightarrow> t)"

text \<open>
  \<open>run\<close>, with the response of \<open>get_project_data\<close> as the argument \<open>raw\<close> (\<open>None\<close> when
  it is not truthy). The result is the exception raised, or the dictionary returned and the
  effects of the renderers.
\<close>

definition run ::
  "(string \<Rightarrow> rat option) \<Rightarrow> (string \<Rightarrow> datetime option) \<Rightarrow> bool \<Rightarrow> config
     \<Rightarrow> raw_response option \<Rightarrow> error + run_result \<times> effect list" where
  "run float fromisoformat kaleido cfg raw =
     (case fromisoformat (cfg_sprint_start cfg) of
        None \<Rightarrow> Inl ValueError
      | Some start \<Rightarrow>
     (case fromisoformat (cfg_sprint_end cfg) of
        None \<Rightarrow> Inl ValueError
      | Some finish \<Rightarrow>
     (case raw of
        None \<Rightarrow> Inl (RuntimeError
                 ''Failed to fetch project data from GitHub API. See printed error above.'')
      | Some r \<Rightarrow>
     (case process_project_data float fromisoformat cfg (Some r) start finish of
        None \<Rightarrow> Inl (RuntimeError
                 ''No project items matched the sprint filter or project response unexpected.'')
      | Some pdata \<Rightarrow>
     (case calculate_burndown_data pdata (cfg_planned_points cfg) of
        Inl e \<Rightarrow> Inl e
      | Inr bd \<Rightarrow>
          Inr (\<lparr>project = pdata, burndown = bd\<rparr>,
               (if chart_type cfg = ''matplotlib'' \<or> chart_type cfg = ''both''
                then create_matplotlib_chart bd (project_name pdata) (cfg_save_path cfg)
                else [])
               @ (if chart_type cfg = ''plotly'' \<or> chart_type cfg = ''both''
                  then create_plotly_chart kaleido bd (project_name pdata) (cfg_save_path cfg)
                  else [])))))))"

section \<open>Specified behaviour and sample inputs\<close>

subsection \<open>The resolution order of story points\<close>

text \<open>The first result that \<open>f\<close> gives along the list.\<close>

definition first_some :: "('a \<Rightarrow> 'b option) \<Rightarrow> 'a list \<Rightarrow> 'b option" where
  "first_some f xs = (case List.map_filter f xs of [] \<Rightarrow> None | y # _ \<Rightarrow> Some y)"



subsection \<open>The sprint tag and the normalised item\<close>

text \<open>
  The sprint tag of an item, as specified: the \<open>name\<close> or \<open>text\<close> value of the field value
  found when searching for the field name \<open>sprint_field\<close>, compared without case.
\<close>

definition spec_sprint_tag :: "string \<Rightarrow> raw_item \<Rightarrow> string option" where
  "spec_sprint_tag sprint_field it =
     first_some (\<lambda>v. if lower (fv_field v) = lower sprint_field
                      then (if truthy (fv_name v) then fv_name v
                            else if truthy (fv_text v) then fv_text v else None)
                      else None)
       (fieldValues it)"

text \<open>The normaliser on one item: its entry, or \<open>None\<close> when the item is left out.\<close>

definition normalize_item ::
  "(string \<Rightarrow> rat option) \<Rightarrow> (string \<Rightarrow> datetime option) \<Rightarrow> config \<Rightarrow> raw_item
     \<Rightarrow> entry option" where
  "normalize_item float fromisoformat cfg it =
     (case content it of
        None \<Rightarrow> None
      | Some c \<Rightarrow> if include_item cfg it then Some (make_entry float fromisoformat cfg it c)
                  else None)"

subsection \<open>The days of the loop\<close>

text \<open>\<open>n\<close> steps of one day from \<open>current\<close>.\<close>

primrec day_steps :: "datetime \<Rightarrow> nat \<Rightarrow> datetime list" where
  "day_steps current 0 = []"
| "day_steps current (Suc n) = current # day_steps (current + DAY) n"

text \<open>The number of passes of the loop that starts at \<open>current\<close>.\<close>

definition loop_count :: "datetime \<Rightarrow> datetime \<Rightarrow> nat" where
  "loop_count current finish = (if current \<le> finish then nat (days (finish - current)) + 1 else 0)"

subsection \<open>Sample inputs\<close>

text \<open>
  Two finite fragments of the library functions, for the sample inputs: what \<open>float\<close> and
  \<open>datetime.fromisoformat\<close> return on the listed texts, and a failure on every other text.
\<close>

definition float_sample :: "string \<Rightarrow> rat option" where
  "float_sample = map_of [(''8'', 8), (''2.5'', 5 / 2), (''-1'', - 1)]"

definition fromisoformat_sample :: "string \<Rightarrow> datetime option" where
  "fromisoformat_sample =
     map_of [(''2024-01-01'', datetime_of 2024 1 1 0 0),
             (''2024-01-05'', datetime_of 2024 1 5 0 0),
             (''2024-01-02T10:00:00+00:00'', datetime_of 2024 1 2 10 0),
             (''2024-01-03T15:30:00+00:00'', datetime_of 2024 1 3 15 30)]"

text \<open>A configuration that filters by label, and one that filters by the field \<open>Sprint\<close>.\<close>

definition cfg_labels :: config where
  "cfg_labels =
     \<lparr>cfg_project_type = None, cfg_sprint_label = Some ''Sprint 3'', cfg_sprint_field = None,
      cfg_points_field = Some ''Story Points'', cfg_planned_points = None,
      cfg_save_path = Some ''burndown.png'', cfg_chart_type = None,
      cfg_sprint_start = ''2024-01-01'', cfg_sprint_end = ''2024-01-05''\<rparr>"

definition cfg_field :: config where
  "cfg_field = cfg_labels\<lparr>cfg_sprint_field := Some ''Sprint''\<rparr>"

text \<open>An issue with the given label names.\<close>

definition issue :: "string list \<Rightarrow> item_content" where
  "issue ls =
     \<lparr>c_title = Some ''Task'', c_state = Some ''CLOSED'',
      createdAt = Some ''2024-01-02T10:00:00Z'', closedAt = Some ''2024-01-03T15:30:00Z'',
      labels = ls\<rparr>"

text \<open>Scenario B: the two labelled items.\<close>

definition item_B1 :: raw_item where
  "item_B1 = \<lparr>content = Some (issue [''Sprint 3'', ''bug'']), fieldValues = []\<rparr>"

definition item_B2 :: raw_item where
  "item_B2 = \<lparr>content = Some (issue [''Sprint 2'']), fieldValues = []\<rparr>"

text \<open>An item whose single-select field \<open>sprint\<close> holds the sprint.\<close>

definition item_F :: raw_item where
  "item_F =
     \<lparr>content = Some (issue [''Sprint 2'']),
      fieldValues =
        [\<lparr>fv_field = ''Status'', fv_name = Some ''Done'', fv_text = None, fv_number = None\<rparr>,
         \<lparr>fv_field = ''sprint'', fv_name = Some ''SPRINT 3 (January)'', fv_text = None,
          fv_number = None\<rparr>]\<rparr>"




text \<open>An item whose \<open>closedAt\<close> is not a timestamp, worth 2.5 points by its text field.\<close>

definition item_bad_time :: raw_item where
  "item_bad_time =
     \<lparr>content = Some ((issue [''Sprint 3''])\<lparr>closedAt := Some ''yesterday''\<rparr>),
      fieldValues =
        [\<lparr>fv_field = ''Story Points'', fv_name = None, fv_text = Some ''2.5'',
          fv_number = None\<rparr>]\<rparr>"

text \<open>A response in which the organization's project is found, with the given items.\<close>

definition response_of :: "raw_item list \<Rightarrow> raw_response" where
  "response_of its =
     \<lparr>data = Some \<lparr>organization = Some \<lparr>p_title = Some ''Board'', p_items = its\<rparr>,
                    repository = None\<rparr>\<rparr>"

text \<open>
  Scenario A: a sprint from 2024-01-01 to 2024-01-05 and one item of 4 points closed on
  2024-01-03; the planned total of 10 is passed as \<open>planned_points\<close>.
\<close>

definition scenario_A :: project_data where
  "scenario_A =
     \<lparr>project_name = Some ''Board'',
      items = [\<lparr>title = ''Task'', story_points = 4,
                created_at = Some (datetime_of 2023 12 20 9 0),
                closed_at = Some (datetime_of 2024 1 3 15 30), state = Some ''CLOSED''\<rparr>],
      total_points = 4,
      sprint_start = datetime_of 2024 1 1 0 0,
      sprint_end = datetime_of 2024 1 5 0 0\<rparr>"

text \<open>The series the calculator returns in scenario A.\<close>

definition series_A :: series where
  "series_A =
     \<lparr>dates = [datetime_of 2024 1 1 0 0, datetime_of 2024 1 2 0 0, datetime_of 2024 1 3 0 0,
               datetime_of 2024 1 4 0 0, datetime_of 2024 1 5 0 0],
      remaining = [10, 10, 6, 6, 6],
      ideal = [10, 15 / 2, 5, 5 / 2, 0],
      series_total_points = 10\<rparr>"

section \<open>Properties\<close>

subsection \<open>Story points\<close>

lemma first_some_Nil: "first_some f [] = None"
  by (simp add: first_some_def)

lemma first_some_Cons:
  "first_some f (x # xs) = (case f x of Some y \<Rightarrow> Some y | None \<Rightarrow> first_some f xs)"
  by (simp add: first_some_def split: option.splits)


lemma lower_eq_nonempty: "lower a = lower b \<Longrightarrow> b \<noteq> [] \<Longrightarrow> a \<noteq> []"
  by (auto simp: lower_def)




subsection \<open>The burndown loop\<close>

lemma DAY_pos: "0 < DAY"
  by (simp add: DAY_def)

lemma dt_add_Inr: "dt_add d td = Inr r \<Longrightarrow> r = d + td"
  by (simp add: dt_add_def split: if_splits)

lemma days_shift: "days (a - (b + DAY)) = days (a - b) - 1"
proof -
  have "a - (b + DAY) = (a - b) + (- 1) * DAY" by simp
  then have "(a - (b + DAY)) div DAY = (a - b) div DAY + (- 1)"
    using DAY_pos by (metis div_mult_self1 less_irrefl add.commute)
  then show ?thesis by (simp add: days_def)
qed

lemma loop_count_step:
  assumes "current \<le> finish"
  shows "loop_count current finish = Suc (loop_count (current + DAY) finish)"
proof (cases "current + DAY \<le> finish")
  case True
  then have "0 \<le> days (finish - (current + DAY))"
    using DAY_pos by (simp add: days_def pos_imp_zdiv_nonneg_iff)
  with True assms show ?thesis
    by (simp add: loop_count_def days_shift)
next
  case False
  with assms have "0 \<le> finish - current" "finish - current < DAY" by simp_all
  then have "days (finish - current) = 0"
    by (simp add: days_def)
  with False assms show ?thesis by (simp add: loop_count_def)
qed

lemma loop_count_stop: "\<not> current \<le> finish \<Longrightarrow> loop_count current finish = 0"
  by (simp add: loop_count_def)

lemma burndown_loop_result:
  "burndown_loop its total_pts daily start finish current (ds, rs, ids) = Inr (ds', rs', ids') \<Longrightarrow>
   ds' = ds @ day_steps current (loop_count current finish)
   \<and> rs' = rs @ map (\<lambda>d. max 0 (total_pts - done_points its d))
                  (day_steps current (loop_count current finish))
   \<and> ids' = ids @ map (\<lambda>d. max 0 (total_pts - daily * of_int (days (d - start))))
                  (day_steps current (loop_count current finish))"
proof (induction its total_pts daily start finish current "(ds, rs, ids)"
         arbitrary: ds rs ids rule: burndown_loop.induct)
  case (1 its total_pts daily start finish current ds rs ids)
  show ?case
  proof (cases "current \<le> finish")
    case False
    with "1.prems" show ?thesis
      by (subst (asm) burndown_loop.simps) (simp add: loop_count_stop)
  next
    case True
    from True "1.prems" obtain nxt where nxt: "dt_add current DAY = Inr nxt"
      by (subst (asm) burndown_loop.simps) (auto simp: Let_def split: sum.splits)
    then have eq: "nxt = current + DAY" by (rule dt_add_Inr)
    from True "1.prems" nxt have rec:
      "burndown_loop its total_pts daily start finish nxt
         (ds @ [current], rs @ [max 0 (total_pts - done_points its current)],
          ids @ [max 0 (total_pts - daily * of_int (days (current - start)))]) = Inr (ds', rs', ids')"
      by (subst (asm) burndown_loop.simps) (simp add: Let_def)
    from "1.hyps"[OF True refl refl refl refl nxt rec] True
    show ?thesis by (simp add: eq loop_count_step[OF True])
  qed
qed

lemma burndown_loop_total:
  "0 \<le> current \<Longrightarrow> date finish < MAXORDINAL \<Longrightarrow>
   \<exists>r. burndown_loop its total_pts daily start finish current acc = Inr r"
proof (induction its total_pts daily start finish current acc rule: burndown_loop.induct)
  case (1 its total_pts daily start finish current ds rs ids)
  show ?case
  proof (cases "current \<le> finish")
    case False
    then show ?thesis by (subst burndown_loop.simps) simp
  next
    case True
    have "date (current + DAY) = date current + 1"
      using DAY_pos by (simp add: date_def)
    moreover have "date current \<le> date finish"
      using True DAY_pos by (simp add: date_def zdiv_mono1)
    moreover have "0 \<le> date current"
      using "1.prems"(1) DAY_pos by (simp add: date_def pos_imp_zdiv_nonneg_iff)
    ultimately have nxt: "dt_add current DAY = Inr (current + DAY)"
      using "1.prems"(2) by (simp add: dt_add_def)
    have "0 \<le> current + DAY" using "1.prems"(1) DAY_pos by simp
    from "1.IH"[OF True refl refl refl refl nxt this "1.prems"(2)] True nxt
    show ?thesis by (subst burndown_loop.simps) (simp add: Let_def)
  qed
qed

lemma length_day_steps: "length (day_steps current n) = n"
  by (induction n arbitrary: current) simp_all

lemma day_steps_map: "day_steps current n = map (\<lambda>k. current + int k * DAY) [0..<n]"
proof (induction n arbitrary: current)
  case 0
  show ?case by simp
next
  case (Suc n)
  have "map (\<lambda>k. current + int k * DAY) [0..<Suc n]
          = current # map (\<lambda>k. current + int (Suc k) * DAY) [0..<n]"
    by (simp add: upt_conv_Cons map_Suc_upt[symmetric] del: upt_Suc)
  also have "map (\<lambda>k. current + int (Suc k) * DAY) [0..<n]
          = map (\<lambda>k. (current + DAY) + int k * DAY) [0..<n]"
    by (simp add: algebra_simps)
  finally show ?case by (simp add: Suc.IH del: upt_Suc)
qed

lemma day_steps_lower: "d \<in> set (day_steps current n) \<Longrightarrow> current \<le> d"
proof (induction n arbitrary: current)
  case 0
  then show ?case by simp
next
  case (Suc n)
  then show ?case using DAY_pos by fastforce
qed

lemma day_steps_antitone:
  assumes "\<And>d d'. d \<le> d' \<Longrightarrow> g d' \<le> (g d :: rat)"
  shows "sorted_wrt (\<ge>) (map g (day_steps current n))"
proof (induction n arbitrary: current)
  case 0
  show ?case by simp
next
  case (Suc n)
  have "g d \<le> g current" if "d \<in> set (day_steps (current + DAY) n)" for d
  proof -
    from that have "current + DAY \<le> d" by (rule day_steps_lower)
    then have "current \<le> d" using DAY_pos by simp
    then show ?thesis by (rule assms)
  qed
  with Suc.IH show ?case by auto
qed

lemma last_day_steps: "last (day_steps current (Suc n)) = current + int n * DAY"
  by (simp add: day_steps_map del: upt_Suc day_steps.simps) (simp add: last_map)

lemma date_mono: "d \<le> d' \<Longrightarrow> date d \<le> date d'"
  using DAY_pos by (simp add: date_def zdiv_mono1)

lemma closed_by_mono: "date d \<le> date d' \<Longrightarrow> closed_by d i \<Longrightarrow> closed_by d' i"
  by (auto simp: closed_by_def split: option.splits)

lemma done_points_mono:
  assumes "\<forall>i\<in>set its. 0 \<le> story_points i" and "date d \<le> date d'"
  shows "done_points its d \<le> done_points its d'"
  using assms(1)
proof (induction its)
  case Nil
  show ?case by (simp add: done_points_def)
next
  case (Cons i its)
  then have IH: "done_points its d \<le> done_points its d'" and nn: "0 \<le> story_points i"
    by simp_all
  show ?case
  proof (cases "closed_by d i")
    case True
    then have "closed_by d' i" using assms(2) closed_by_mono by blast
    with True IH show ?thesis by (simp add: done_points_def)
  next
    case False
    with IH nn show ?thesis by (cases "closed_by d' i") (simp_all add: done_points_def)
  qed
qed

lemma done_points_sum:
  "done_points its d =
     (\<Sum>i\<leftarrow>its. if (case closed_at i of None \<Rightarrow> False | Some c \<Rightarrow> date c \<le> date d)
                 then story_points i else 0)"
  by (induction its) (simp_all add: done_points_def closed_by_def)

lemma py_div_ok: "py_div a (max 1 n) = Inr (a / of_int (max 1 n))"
  by (simp add: py_div_def max_def)

lemma calculate_burndown_data_Inr:
  assumes "calculate_burndown_data pd planned = Inr s"
  defines "T \<equiv> (case planned of Some p \<Rightarrow> p | None \<Rightarrow> total_points pd)"
  defines "steps \<equiv> day_steps (sprint_start pd) (loop_count (sprint_start pd) (sprint_end pd))"
  shows "dates s = steps"
    and "remaining s = map (\<lambda>d. max 0 (T - done_points (items pd) d)) steps"
    and "ideal s = map (\<lambda>d. max 0 (T - T / of_int (max 1 (days (sprint_end pd - sprint_start pd)))
                                     * of_int (days (d - sprint_start pd)))) steps"
    and "series_total_points s = T"
proof -
  let ?n = "max 1 (days (sprint_end pd - sprint_start pd))"
  from assms(1) obtain ds rs ids where
    loop: "burndown_loop (items pd) T (T / of_int ?n) (sprint_start pd) (sprint_end pd)
             (sprint_start pd) ([], [], []) = Inr (ds, rs, ids)"
    and s: "s = \<lparr>dates = ds, remaining = rs, ideal = ids, series_total_points = T\<rparr>"
    unfolding calculate_burndown_data_def Let_def T_def py_div_ok
    by (auto split: sum.splits)
  from burndown_loop_result[OF loop] s
  show "dates s = steps"
    and "remaining s = map (\<lambda>d. max 0 (T - done_points (items pd) d)) steps"
    and "ideal s = map (\<lambda>d. max 0 (T - T / of_int ?n * of_int (days (d - sprint_start pd)))) steps"
    and "series_total_points s = T"
    by (simp_all add: steps_def)
qed

lemma calculate_burndown_data_returns:
  assumes "0 \<le> sprint_start pd" and "date (sprint_end pd) < MAXORDINAL"
  shows "\<exists>s. calculate_burndown_data pd planned = Inr s"
proof -
  let ?T = "case planned of Some p \<Rightarrow> p | None \<Rightarrow> total_points pd"
  let ?n = "max 1 (days (sprint_end pd - sprint_start pd))"
  from burndown_loop_total[OF assms] obtain r where
    "burndown_loop (items pd) ?T (?T / of_int ?n) (sprint_start pd) (sprint_end pd)
       (sprint_start pd) ([], [], []) = Inr r"
    by blast
  then show ?thesis
    unfolding calculate_burndown_data_def Let_def py_div_ok
    by (cases r) (simp split: prod.splits)
qed

lemma burndown_loop_error:
  "burndown_loop its total_pts daily start finish current acc = Inl e \<Longrightarrow> e = OverflowError"
proof (induction its total_pts daily start finish current acc rule: burndown_loop.induct)
  case (1 its total_pts daily start finish current ds rs ids)
  show ?case
  proof (cases "current \<le> finish")
    case False
    with "1.prems" show ?thesis by (subst (asm) burndown_loop.simps) simp
  next
    case True
    show ?thesis
    proof (cases "dt_add current DAY")
      case (Inl e')
      then have "e' = OverflowError" by (simp add: dt_add_def split: if_splits)
      with True Inl "1.prems" show ?thesis
        by (subst (asm) burndown_loop.simps) (simp add: Let_def)
    next
      case (Inr nxt)
      from True Inr "1.prems" "1.IH"[OF True refl refl refl refl Inr] show ?thesis
        by (subst (asm) burndown_loop.simps) (simp add: Let_def)
    qed
  qed
qed

lemma calculate_burndown_data_error:
  "calculate_burndown_data pd planned = Inl e \<Longrightarrow> e = OverflowError"
  unfolding calculate_burndown_data_def Let_def py_div_ok
  by (auto split: sum.splits dest: burndown_loop_error)








subsection \<open>The sprint filter and the normalised list\<close>

lemma str_in_sublist: "str_in a b = sublist a b"
  by (induction b) (simp_all add: sublist_Cons_right)

lemma first_some_None: "\<forall>x\<in>set xs. f x = None \<Longrightarrow> first_some f xs = None"
  by (induction xs) (simp_all add: first_some_Nil first_some_Cons)

lemma first_some_skip:
  "\<forall>x\<in>set xs. f x = None \<Longrightarrow> first_some f (xs @ ys) = first_some f ys"
  by (induction xs) (simp_all add: first_some_Cons)

lemma sprint_scan_first:
  "sf \<noteq> [] \<Longrightarrow>
   sprint_scan (Some sf) vs =
     first_some (\<lambda>v. if lower (fv_field v) = lower sf
                      then (if truthy (fv_name v) then fv_name v
                            else if truthy (fv_text v) then fv_text v else None)
                      else None) vs"
  by (induction vs)
     (auto simp: first_some_Nil first_some_Cons field_is_def dest: lower_eq_nonempty
           split: option.splits)

lemma sprint_scan_off: "\<not> truthy sfn \<Longrightarrow> sprint_scan sfn vs = None"
  by (induction vs) (cases sfn; simp)+

lemma include_item_field:
  assumes "cfg_sprint_field cfg = Some sf" and "sf \<noteq> []"
  shows "include_item cfg it =
           (\<exists>tag l. spec_sprint_tag sf it = Some tag \<and> cfg_sprint_label cfg = Some l
                    \<and> l \<noteq> [] \<and> sublist (lower l) (lower tag))"
proof (cases "spec_sprint_tag sf it")
  case None
  then show ?thesis using assms
    by (simp add: include_item_def get_item_sprint_def sprint_scan_first spec_sprint_tag_def)
next
  case (Some tag)
  then show ?thesis using assms
    by (cases "cfg_sprint_label cfg")
       (simp_all add: include_item_def get_item_sprint_def sprint_scan_first spec_sprint_tag_def
          str_in_sublist)
qed

lemma include_item_labels:
  assumes "\<not> truthy (cfg_sprint_field cfg)"
  shows "include_item cfg it =
           (\<not> truthy (cfg_sprint_label cfg)
            \<or> (\<exists>l. cfg_sprint_label cfg = Some l
                    \<and> (\<exists>lbl\<in>set (item_labels it). lower l = lower lbl)))"
  using assms
  by (cases "cfg_sprint_label cfg")
     (auto simp: include_item_def get_item_sprint_def sprint_scan_off list_ex_iff)

lemma process_items_acc:
  "process_items float fi cfg its (filtered, total_pts) =
     (filtered @ List.map_filter (normalize_item float fi cfg) its,
      total_pts + sum_list (map story_points (List.map_filter (normalize_item float fi cfg) its)))"
proof (induction its arbitrary: filtered total_pts)
  case Nil
  show ?case by (simp add:)
next
  case (Cons it its)
  show ?case
    by (cases "content it")
       (simp_all add: Cons.IH normalize_item_def Let_def)
qed

lemma process_items_result:
  "process_items float fi cfg its ([], 0) =
     (List.map_filter (normalize_item float fi cfg) its,
      sum_list (map story_points (List.map_filter (normalize_item float fi cfg) its)))"
  by (simp add: process_items_acc)

lemma process_items_single:
  "content it = Some c \<Longrightarrow>
   fst (process_items float fi cfg [it] ([], 0)) =
     (if include_item cfg it then [make_entry float fi cfg it c] else [])"
  by (simp add: process_items_result normalize_item_def)

lemma parse_times_fail:
  assumes "(\<exists>t. created = Some t \<and> t \<noteq> [] \<and> fi (replace ''Z'' ''+00:00'' t) = None)
         \<or> (\<exists>t. closed_s = Some t \<and> t \<noteq> [] \<and> fi (replace ''Z'' ''+00:00'' t) = None)"
  shows "parse_times fi created closed_s = (None, None)"
  using assms by (auto simp: parse_times_def split: sum.splits option.splits)

lemma map_filter_member:
  "x \<in> set xs \<Longrightarrow> f x = Some y \<Longrightarrow> y \<in> set (List.map_filter f xs)"
  by (induction xs) (auto split: option.splits)

lemma process_project_data_found:
  assumes "data r = Some d"
    and "(if project_type cfg = ''organization'' then organization d else repository d) = Some p"
  shows "process_project_data float fi cfg (Some r) start finish =
           Some \<lparr>project_name = p_title p,
                 items = List.map_filter (normalize_item float fi cfg) (p_items p),
                 total_points =
                   sum_list (map story_points
                     (List.map_filter (normalize_item float fi cfg) (p_items p))),
                 sprint_start = start, sprint_end = finish\<rparr>"
  using assms by (simp add: process_project_data_def process_items_result)

subsection \<open>The shape of the series\<close>

lemma loop_count_pos: "start \<le> finish \<Longrightarrow> loop_count start finish = Suc (nat (days (finish - start)))"
  by (simp add: loop_count_def)

lemma days_nonneg: "0 \<le> td \<Longrightarrow> 0 \<le> days td"
  using DAY_pos by (simp add: days_def pos_imp_zdiv_nonneg_iff)

lemma days_bounds: "days td * DAY \<le> td \<and> td < days td * DAY + DAY"
proof -
  have "days td * DAY = td - td mod DAY"
    by (simp add: days_def minus_mod_eq_div_mult)
  moreover have "0 \<le> td mod DAY" "td mod DAY < DAY"
    using DAY_pos by simp_all
  ultimately show ?thesis by linarith
qed

lemma day_steps_increasing: "sorted_wrt (<) (day_steps current n)"
proof (induction n arbitrary: current)
  case 0
  show ?case by simp
next
  case (Suc n)
  have "current < d" if "d \<in> set (day_steps (current + DAY) n)" for d
    using day_steps_lower[OF that] DAY_pos by simp
  with Suc.IH show ?case by simp
qed

lemma datetime_nonneg: "1 \<le> date d \<Longrightarrow> 0 \<le> d"
proof (rule ccontr)
  assume a: "1 \<le> date d" and "\<not> 0 \<le> d"
  then have "d div DAY < 0" using DAY_pos by (simp add: div_neg_pos_less0)
  with a show False by (simp add: date_def)
qed

lemma scenario_A_series: "calculate_burndown_data scenario_A (Some 10) = Inr series_A"
  by code_simp

subsection \<open>The run\<close>

text \<open>
  When the project is found in the response, \<open>run\<close> raises no \<open>RuntimeError\<close>, whatever the
  items are: \<open>process_project_data\<close> returns a dictionary, which is truthy.
\<close>

lemma run_found_not_aborted:
  assumes "data r = Some d"
    and "(if project_type cfg = ''organization'' then organization d else repository d) = Some p"
  shows "\<forall>msg. run float fi kaleido cfg (Some r) \<noteq> Inl (RuntimeError msg)"
  using assms calculate_burndown_data_error
  by (auto simp: run_def process_project_data_def split: option.splits sum.splits prod.splits)

section \<open>The claims\<close>

subsection \<open>C1: scenario A and the remaining points\<close>

text \<open>
  C1, as stated, at its own input: in scenario A the remaining sequence is not
  \<open>[10, 10, 10, 6, 6]\<close>. The item closed on 2024-01-03 counts as done on 2024-01-03
  already, since the dates are compared with \<open>\<le>\<close>.
\<close>

theorem scenario_A_remaining_counterexample:
  "map_sum id remaining (calculate_burndown_data scenario_A (Some 10)) \<noteq> Inr [10, 10, 10, 6, 6]"
  by code_simp

text \<open>
  C1, amended: for the sprint from 2024-01-01 to 2024-01-05 with a total of 10 and one item
  of 4 story points closed on 2024-01-03, \<open>calculate_burndown_data\<close> produces the remaining
  sequence \<open>[10, 10, 6, 6, 6]\<close> and the ideal sequence \<open>[10, 7.5, 5, 2.5, 0]\<close>. In general,
  every series it returns has \<open>remaining(d) = max(0, total - done(d))\<close> on each of its
  dates, where \<open>total\<close> is \<open>planned_points\<close> if given and the snapshot's total otherwise, and
  \<open>done(d)\<close> sums the story points of the items whose \<open>closed_at\<close> date is at most the
  date of \<open>d\<close>; items never closed, or closed later, contribute 0. All the numbers of the
  scenario are binary fractions, so the floats of the source take exactly these values.
\<close>

theorem scenario_A_burndown:
  "calculate_burndown_data scenario_A (Some 10) = Inr series_A
   \<and> remaining series_A = [10, 10, 6, 6, 6]
   \<and> ideal series_A = [10, 15 / 2, 5, 5 / 2, 0]
   \<and> (calculate_burndown_data pd planned = Inr s \<longrightarrow>
        remaining s =
          map (\<lambda>d. max 0 (series_total_points s - done_points (items pd) d)) (dates s)
        \<and> series_total_points s = (case planned of Some p \<Rightarrow> p | None \<Rightarrow> total_points pd))
   \<and> done_points its d =
         (\<Sum>i\<leftarrow>its. if (case closed_at i of None \<Rightarrow> False | Some c \<Rightarrow> date c \<le> date d)
                     then story_points i else 0)"
proof (intro conjI impI)
  show "calculate_burndown_data scenario_A (Some 10) = Inr series_A"
    by (rule scenario_A_series)
  show "remaining series_A = [10, 10, 6, 6, 6]" by (simp add: series_A_def)
  show "ideal series_A = [10, 15 / 2, 5, 5 / 2, 0]" by (simp add: series_A_def)
  show "done_points its d =
         (\<Sum>i\<leftarrow>its. if (case closed_at i of None \<Rightarrow> False | Some c \<Rightarrow> date c \<le> date d)
                     then story_points i else 0)"
    by (rule done_points_sum)
next
  assume r: "calculate_burndown_data pd planned = Inr s"
  show "remaining s =
          map (\<lambda>d. max 0 (series_total_points s - done_points (items pd) d)) (dates s)"
    by (simp add: calculate_burndown_data_Inr[OF r])
  show "series_total_points s = (case planned of Some p \<Rightarrow> p | None \<Rightarrow> total_points pd)"
    by (rule calculate_burndown_data_Inr(4)[OF r])
qed

theorem scenario_A_burndown_witness:
  "calculate_burndown_data scenario_A (Some 10) = Inr series_A
   \<and> remaining series_A =
       map (\<lambda>d. max 0 (series_total_points series_A - done_points (items scenario_A) d))
         (dates series_A)
   \<and> series_total_points series_A = 10"
proof -
  have e: "calculate_burndown_data scenario_A (Some 10) = Inr series_A"
    by code_simp
  have t: "series_total_points series_A = 10"
    by (simp add: series_A_def)
  from scenario_A_burndown[of scenario_A "Some 10" series_A] e t show ?thesis
    by blast
qed

subsection \<open>C2: a filter that matches nothing\<close>

text \<open>
  C2 says that the run aborts with an error when the project is found and no item matches
  the sprint filter. The code does not: \<open>process_project_data\<close> returns a dictionary with
  an empty item list, \<open>if not pdata\<close> does not fire on it, and the run goes on to draw both
  charts from a series of zeros. Here the only item is labelled \<open>Sprint 2\<close> and the filter
  asks for \<open>Sprint 3\<close>.
\<close>

theorem run_with_empty_filter:
  "run float_sample fromisoformat_sample True cfg_labels (Some (response_of [item_B2])) =
     Inr (\<lparr>project =
             \<lparr>project_name = Some ''Board'', items = [], total_points = 0,
              sprint_start = datetime_of 2024 1 1 0 0, sprint_end = datetime_of 2024 1 5 0 0\<rparr>,
           burndown =
             \<lparr>dates = [datetime_of 2024 1 1 0 0, datetime_of 2024 1 2 0 0,
                       datetime_of 2024 1 3 0 0, datetime_of 2024 1 4 0 0,
                       datetime_of 2024 1 5 0 0],
              remaining = [0, 0, 0, 0, 0], ideal = [0, 0, 0, 0, 0],
              series_total_points = 0\<rparr>\<rparr>,
          [Savefig ''burndown.png'', PltShow, WriteHtml ''burndown.html'',
           WriteImage ''burndown.png'', FigShow])"
  by code_simp

subsection \<open>C3: the sign of the story points\<close>




subsection \<open>C4: the resolution order\<close>


subsection \<open>C5: the filter by sprint field\<close>

text \<open>
  C5: when \<open>sprint_field\<close> is configured, an item with a content is included if and only
  if the search of its field values for the field name \<open>sprint_field\<close> (up to case) finds a
  sprint tag, \<open>sprint_label\<close> is configured, and \<open>sprint_label\<close> occurs in the tag up to
  case. The tag is the \<open>name\<close> of the first field value that carries the field name and
  has a \<open>name\<close> or a \<open>text\<close>, or its \<open>text\<close> when it has no \<open>name\<close>. An item none of whose
  field values carries the field name is left out, whatever its labels are.
\<close>

theorem sprint_field_filter:
  assumes sf: "cfg_sprint_field cfg = Some sf" "sf \<noteq> []" and c: "content it = Some c"
  shows "(include_item cfg it \<longleftrightarrow>
            (\<exists>tag l. spec_sprint_tag sf it = Some tag \<and> cfg_sprint_label cfg = Some l
                     \<and> l \<noteq> [] \<and> sublist (lower l) (lower tag)))
         \<and> fst (process_items float fi cfg [it] ([], 0)) =
             (if include_item cfg it then [make_entry float fi cfg it c] else [])
         \<and> ((\<forall>v\<in>set (fieldValues it). lower (fv_field v) \<noteq> lower sf) \<longrightarrow>
               \<not> include_item cfg it)
         \<and> (fieldValues it = pre @ [v] @ post
              \<and> (\<forall>u\<in>set pre. lower (fv_field u) \<noteq> lower sf)
              \<and> lower (fv_field v) = lower sf
              \<and> (truthy (fv_name v) \<or> truthy (fv_text v)) \<longrightarrow>
              spec_sprint_tag sf it = (if truthy (fv_name v) then fv_name v else fv_text v))"
proof -
  let ?f = "\<lambda>v. if lower (fv_field v) = lower sf
                 then (if truthy (fv_name v) then fv_name v
                       else if truthy (fv_text v) then fv_text v else None)
                 else None"
  have iff: "include_item cfg it \<longleftrightarrow>
            (\<exists>tag l. spec_sprint_tag sf it = Some tag \<and> cfg_sprint_label cfg = Some l
                     \<and> l \<noteq> [] \<and> sublist (lower l) (lower tag))"
    by (rule include_item_field[OF sf])
  have out: "fst (process_items float fi cfg [it] ([], 0)) =
             (if include_item cfg it then [make_entry float fi cfg it c] else [])"
    by (rule process_items_single[OF c])
  have lack: "\<not> include_item cfg it"
    if "\<forall>v\<in>set (fieldValues it). lower (fv_field v) \<noteq> lower sf"
  proof -
    from that have "\<forall>v\<in>set (fieldValues it). ?f v = None" by simp
    then have "spec_sprint_tag sf it = None"
      unfolding spec_sprint_tag_def by (rule first_some_None)
    with iff show ?thesis by simp
  qed
  have tag: "spec_sprint_tag sf it = (if truthy (fv_name v) then fv_name v else fv_text v)"
    if h: "fieldValues it = pre @ [v] @ post
           \<and> (\<forall>u\<in>set pre. lower (fv_field u) \<noteq> lower sf)
           \<and> lower (fv_field v) = lower sf
           \<and> (truthy (fv_name v) \<or> truthy (fv_text v))"
  proof -
    from h have "\<forall>u\<in>set pre. ?f u = None" by simp
    then have "first_some ?f (pre @ [v] @ post) = first_some ?f ([v] @ post)"
      by (rule first_some_skip)
    also from h have "\<dots> = (if truthy (fv_name v) then fv_name v else fv_text v)"
      by (cases "fv_name v"; cases "fv_text v") (auto simp: first_some_Cons)
    finally show ?thesis using h by (simp add: spec_sprint_tag_def)
  qed
  from iff out lack tag show ?thesis by blast
qed

theorem sprint_field_filter_witness:
  "cfg_sprint_field cfg_field = Some ''Sprint''
   \<and> content item_F = Some (issue [''Sprint 2''])
   \<and> spec_sprint_tag ''Sprint'' item_F = Some ''SPRINT 3 (January)''
   \<and> cfg_sprint_label cfg_field = Some ''Sprint 3''
   \<and> sublist (lower ''Sprint 3'') (lower ''SPRINT 3 (January)'')
   \<and> include_item cfg_field item_F
   \<and> list_all (\<lambda>v. lower (fv_field v) \<noteq> lower ''Sprint'') (fieldValues item_B1)
   \<and> content item_B1 = Some (issue [''Sprint 3'', ''bug''])
   \<and> \<not> include_item cfg_field item_B1"
proof -
  have sf: "cfg_sprint_field cfg_field = Some ''Sprint''" "''Sprint'' \<noteq> []"
    by (simp_all add: cfg_field_def)
  have cF: "content item_F = Some (issue [''Sprint 2''])" by (simp add: item_F_def)
  have cB: "content item_B1 = Some (issue [''Sprint 3'', ''bug''])" by (simp add: item_B1_def)
  have tag: "spec_sprint_tag ''Sprint'' item_F = Some ''SPRINT 3 (January)''" by code_simp
  have lab: "cfg_sprint_label cfg_field = Some ''Sprint 3''" "''Sprint 3'' \<noteq> []"
    by (simp_all add: cfg_field_def cfg_labels_def)
  have sub: "sublist (lower ''Sprint 3'') (lower ''SPRINT 3 (January)'')" by code_simp
  have none: "list_all (\<lambda>v. lower (fv_field v) \<noteq> lower ''Sprint'') (fieldValues item_B1)"
    by (simp add: item_B1_def)
  from sprint_field_filter[OF sf cF] tag lab sub have inc: "include_item cfg_field item_F"
    by blast
  from none have "\<forall>v\<in>set (fieldValues item_B1). lower (fv_field v) \<noteq> lower ''Sprint''"
    by (simp add: list_all_iff)
  with sprint_field_filter[OF sf cB] have exc: "\<not> include_item cfg_field item_B1"
    by blast
  from sf cF tag lab sub inc none cB exc show ?thesis by simp
qed

subsection \<open>C6: the length of the series\<close>

text \<open>
  C6: for a sprint with \<open>sprint_start \<le> sprint_end\<close>, a series that
  \<open>calculate_burndown_data\<close> returns has \<open>whole_days(sprint_end - sprint_start) + 1\<close> dates,
  which step by one day from \<open>sprint_start\<close>; the last of them is within a day of
  \<open>sprint_end\<close> and is \<open>sprint_end\<close> when the sprint is a whole number of days. The three
  lists have the same length, and a sprint of length zero gives exactly one point. The
  division by \<open>days\<close> never raises \<open>ZeroDivisionError\<close>. The function returns a series
  whenever \<open>sprint_start\<close> is a datetime and \<open>sprint_end\<close> lies before 9999-12-31, the last
  day a \<open>datetime\<close> can hold (the loop steps one day past \<open>sprint_end\<close>).
\<close>

theorem burndown_series_shape:
  assumes le: "sprint_start pd \<le> sprint_end pd"
  shows "(calculate_burndown_data pd planned = Inr s \<longrightarrow>
            length (dates s) = nat (days (sprint_end pd - sprint_start pd)) + 1
          \<and> dates s = map (\<lambda>k. sprint_start pd + int k * DAY) [0..<length (dates s)]
          \<and> last (dates s) \<le> sprint_end pd \<and> sprint_end pd < last (dates s) + DAY
          \<and> ((sprint_end pd - sprint_start pd) mod DAY = 0 \<longrightarrow> last (dates s) = sprint_end pd)
          \<and> length (remaining s) = length (dates s)
          \<and> length (ideal s) = length (dates s)
          \<and> (sprint_end pd = sprint_start pd \<longrightarrow>
               dates s = [sprint_start pd] \<and> length (remaining s) = 1 \<and> length (ideal s) = 1))
       \<and> calculate_burndown_data pd planned \<noteq> Inl ZeroDivisionError
       \<and> (1 \<le> date (sprint_start pd) \<and> date (sprint_end pd) < MAXORDINAL \<longrightarrow>
            (\<exists>s'. calculate_burndown_data pd planned = Inr s'))"
proof -
  have nz: "calculate_burndown_data pd planned \<noteq> Inl ZeroDivisionError"
    using calculate_burndown_data_error[of pd planned ZeroDivisionError] by auto
  have ret: "\<exists>s'. calculate_burndown_data pd planned = Inr s'"
    if "1 \<le> date (sprint_start pd) \<and> date (sprint_end pd) < MAXORDINAL"
    using that calculate_burndown_data_returns datetime_nonneg by blast
  have shape:
    "length (dates s) = nat (days (sprint_end pd - sprint_start pd)) + 1
     \<and> dates s = map (\<lambda>k. sprint_start pd + int k * DAY) [0..<length (dates s)]
     \<and> last (dates s) \<le> sprint_end pd \<and> sprint_end pd < last (dates s) + DAY
     \<and> ((sprint_end pd - sprint_start pd) mod DAY = 0 \<longrightarrow> last (dates s) = sprint_end pd)
     \<and> length (remaining s) = length (dates s)
     \<and> length (ideal s) = length (dates s)
     \<and> (sprint_end pd = sprint_start pd \<longrightarrow>
          dates s = [sprint_start pd] \<and> length (remaining s) = 1 \<and> length (ideal s) = 1)"
    if r: "calculate_burndown_data pd planned = Inr s"
  proof -
    let ?n = "nat (days (sprint_end pd - sprint_start pd))"
    have n: "0 \<le> days (sprint_end pd - sprint_start pd)"
      using le by (simp add: days_nonneg)
    have ds: "dates s = day_steps (sprint_start pd) (Suc ?n)"
      using calculate_burndown_data_Inr(1)[OF r] le by (simp add: loop_count_pos)
    have len: "length (dates s) = ?n + 1"
      by (simp add: ds length_day_steps del: day_steps.simps)
    have idx: "dates s = map (\<lambda>k. sprint_start pd + int k * DAY) [0..<length (dates s)]"
      unfolding len unfolding ds by (simp add: day_steps_map del: day_steps.simps upt_Suc)
    have lst: "last (dates s) = sprint_start pd + days (sprint_end pd - sprint_start pd) * DAY"
      using n by (simp add: ds last_day_steps del: day_steps.simps)
    from days_bounds[of "sprint_end pd - sprint_start pd"]
    have bnd: "last (dates s) \<le> sprint_end pd" "sprint_end pd < last (dates s) + DAY"
      by (simp_all add: lst)
    have lr: "length (remaining s) = length (dates s)"
      by (simp add: calculate_burndown_data_Inr[OF r])
    have li: "length (ideal s) = length (dates s)"
      by (simp add: calculate_burndown_data_Inr[OF r])
    have whole: "last (dates s) = sprint_end pd" if "(sprint_end pd - sprint_start pd) mod DAY = 0"
    proof -
      from that
      have "(sprint_end pd - sprint_start pd) div DAY * DAY = sprint_end pd - sprint_start pd"
        by (simp add: mod_0_imp_dvd)
      then show ?thesis by (simp add: lst days_def)
    qed
    have zero: "dates s = [sprint_start pd] \<and> length (remaining s) = 1 \<and> length (ideal s) = 1"
      if "sprint_end pd = sprint_start pd"
    proof -
      from that have "days (sprint_end pd - sprint_start pd) = 0" by (simp add: days_def)
      then have "dates s = [sprint_start pd]" by (simp add: ds)
      with lr li show ?thesis by simp
    qed
    from len idx bnd lr li whole zero show ?thesis by blast
  qed
  from nz ret shape show ?thesis by blast
qed

theorem burndown_series_shape_witness:
  "sprint_start scenario_A \<le> sprint_end scenario_A
   \<and> 1 \<le> date (sprint_start scenario_A) \<and> date (sprint_end scenario_A) < MAXORDINAL
   \<and> (sprint_end scenario_A - sprint_start scenario_A) mod DAY = 0
   \<and> calculate_burndown_data scenario_A (Some 10) = Inr series_A
   \<and> length (dates series_A) = nat (days (sprint_end scenario_A - sprint_start scenario_A)) + 1
   \<and> length (dates series_A) = 5
   \<and> last (dates series_A) = sprint_end scenario_A
   \<and> length (remaining series_A) = length (dates series_A)
   \<and> length (ideal series_A) = length (dates series_A)"
proof -
  have le: "sprint_start scenario_A \<le> sprint_end scenario_A" by code_simp
  have v: "1 \<le> date (sprint_start scenario_A)" "date (sprint_end scenario_A) < MAXORDINAL" by code_simp+
  have m: "(sprint_end scenario_A - sprint_start scenario_A) mod DAY = 0" by code_simp
  have e: "calculate_burndown_data scenario_A (Some 10) = Inr series_A" by code_simp
  have l: "length (dates series_A) = 5" by (simp add: series_A_def)
  from burndown_series_shape[OF le, of "Some 10" series_A] le v m e l show ?thesis
    by blast
qed

subsection \<open>C7: the remaining points do not increase\<close>

text \<open>
  C7: when every item has \<open>story_points \<ge> 0\<close>, the remaining sequence of a series that
  \<open>calculate_burndown_data\<close> returns is non-increasing along its dates, which increase;
  every remaining value is \<open>\<ge> 0\<close>; and \<open>done(d)\<close> is non-decreasing in \<open>d\<close>. The function
  returns a series whenever \<open>sprint_start\<close> is a datetime and \<open>sprint_end\<close> lies before
  9999-12-31.
\<close>

theorem remaining_non_increasing:
  assumes nn: "\<forall>i\<in>set (items pd). 0 \<le> story_points i"
  shows "(calculate_burndown_data pd planned = Inr s \<longrightarrow>
            sorted_wrt (\<ge>) (remaining s)
          \<and> (\<forall>x\<in>set (remaining s). 0 \<le> x)
          \<and> sorted_wrt (<) (dates s)
          \<and> length (remaining s) = length (dates s))
         \<and> (\<forall>d d'. d \<le> d' \<longrightarrow> done_points (items pd) d \<le> done_points (items pd) d')
         \<and> (1 \<le> date (sprint_start pd) \<and> date (sprint_end pd) < MAXORDINAL \<longrightarrow>
              (\<exists>s'. calculate_burndown_data pd planned = Inr s'))"
proof -
  let ?T = "case planned of Some p \<Rightarrow> p | None \<Rightarrow> total_points pd"
  have mono: "done_points (items pd) d \<le> done_points (items pd) d'" if "d \<le> d'" for d d'
    using nn that by (simp add: done_points_mono date_mono)
  have anti: "max 0 (?T - done_points (items pd) d') \<le> max 0 (?T - done_points (items pd) d)"
    if "d \<le> d'" for d d'
    using mono[OF that] by (simp add: max_def)
  have ret: "\<exists>s'. calculate_burndown_data pd planned = Inr s'"
    if "1 \<le> date (sprint_start pd) \<and> date (sprint_end pd) < MAXORDINAL"
    using that calculate_burndown_data_returns datetime_nonneg by blast
  have series: "sorted_wrt (\<ge>) (remaining s) \<and> (\<forall>x\<in>set (remaining s). 0 \<le> x)
                \<and> sorted_wrt (<) (dates s) \<and> length (remaining s) = length (dates s)"
    if r: "calculate_burndown_data pd planned = Inr s"
  proof -
    have "sorted_wrt (\<ge>) (remaining s)"
      unfolding calculate_burndown_data_Inr(2)[OF r] using anti by (rule day_steps_antitone)
    moreover have "\<forall>x\<in>set (remaining s). 0 \<le> x"
      unfolding calculate_burndown_data_Inr(2)[OF r] by auto
    moreover have "sorted_wrt (<) (dates s)"
      unfolding calculate_burndown_data_Inr(1)[OF r] by (rule day_steps_increasing)
    moreover have "length (remaining s) = length (dates s)"
      by (simp add: calculate_burndown_data_Inr[OF r])
    ultimately show ?thesis by blast
  qed
  from mono ret series show ?thesis by blast
qed

theorem remaining_non_increasing_witness:
  "list_all (\<lambda>i. 0 \<le> story_points i) (items scenario_A)
   \<and> 1 \<le> date (sprint_start scenario_A) \<and> date (sprint_end scenario_A) < MAXORDINAL
   \<and> calculate_burndown_data scenario_A (Some 10) = Inr series_A
   \<and> sorted_wrt (\<ge>) (remaining series_A)
   \<and> list_all (\<lambda>x. 0 \<le> x) (remaining series_A)
   \<and> sorted_wrt (<) (dates series_A)"
proof -
  have nn: "\<forall>i\<in>set (items scenario_A). 0 \<le> story_points i"
    by (simp add: scenario_A_def)
  have v: "1 \<le> date (sprint_start scenario_A)" "date (sprint_end scenario_A) < MAXORDINAL"
    by code_simp+
  have e: "calculate_burndown_data scenario_A (Some 10) = Inr series_A"
    by code_simp
  from remaining_non_increasing[OF nn, of "Some 10" series_A] e
  have "sorted_wrt (\<ge>) (remaining series_A) \<and> (\<forall>x\<in>set (remaining series_A). 0 \<le> x)
        \<and> sorted_wrt (<) (dates series_A)"
    by blast
  with nn v e show ?thesis by (simp add: list_all_iff)
qed

subsection \<open>C8: a timestamp that does not parse\<close>

text \<open>
  C8: when \<open>createdAt\<close> or \<open>closedAt\<close> of an item that passes the filter is a non-empty
  text that \<open>datetime.fromisoformat\<close> rejects, \<open>process_project_data\<close> still returns the
  project data; the entry of the item is in its list, with \<open>created_at\<close> and \<open>closed_at\<close>
  both \<open>None\<close> and with the story points of the item, and \<open>total_points\<close> is the sum of the
  story points of the list.
\<close>

theorem timestamp_failure_recovered:
  assumes c: "content it = Some c" and inc: "include_item cfg it"
    and fail: "(\<exists>t. createdAt c = Some t \<and> t \<noteq> [] \<and> fi (replace ''Z'' ''+00:00'' t) = None)
             \<or> (\<exists>t. closedAt c = Some t \<and> t \<noteq> [] \<and> fi (replace ''Z'' ''+00:00'' t) = None)"
    and found: "data r = Some d"
      "(if project_type cfg = ''organization'' then organization d else repository d) = Some p"
    and mem: "it \<in> set (p_items p)"
  shows "\<exists>pd e. process_project_data float fi cfg (Some r) start finish = Some pd
           \<and> e \<in> set (items pd)
           \<and> e = make_entry float fi cfg it c
           \<and> created_at e = None \<and> closed_at e = None
           \<and> story_points e = extract_story_points float it (cfg_points_field cfg)
           \<and> total_points pd = sum_list (map story_points (items pd))"
proof -
  let ?e = "make_entry float fi cfg it c"
  have pt: "parse_times fi (createdAt c) (closedAt c) = (None, None)"
    using fail by (rule parse_times_fail)
  then have e: "created_at ?e = None" "closed_at ?e = None"
    "story_points ?e = extract_story_points float it (cfg_points_field cfg)"
    by (simp_all add: make_entry_def)
  have "normalize_item float fi cfg it = Some ?e"
    using c inc by (simp add: normalize_item_def)
  with mem have "?e \<in> set (List.map_filter (normalize_item float fi cfg) (p_items p))"
    by (rule map_filter_member)
  with e process_project_data_found[OF found, of float fi start finish] show ?thesis
    by simp
qed

theorem timestamp_failure_recovered_witness:
  "content item_bad_time = Some ((issue [''Sprint 3''])\<lparr>closedAt := Some ''yesterday''\<rparr>)
   \<and> include_item cfg_labels item_bad_time
   \<and> fromisoformat_sample (replace ''Z'' ''+00:00'' ''2024-01-02T10:00:00Z'')
       = Some (datetime_of 2024 1 2 10 0)
   \<and> fromisoformat_sample (replace ''Z'' ''+00:00'' ''yesterday'') = None
   \<and> (\<exists>pd. process_project_data float_sample fromisoformat_sample cfg_labels
              (Some (response_of [item_B2, item_bad_time]))
              (datetime_of 2024 1 1 0 0) (datetime_of 2024 1 5 0 0) = Some pd
           \<and> \<lparr>title = ''Task'', story_points = 5 / 2, created_at = None, closed_at = None,
               state = Some ''CLOSED''\<rparr> \<in> set (items pd)
           \<and> total_points pd = sum_list (map story_points (items pd)))"
proof -
  let ?c = "(issue [''Sprint 3''])\<lparr>closedAt := Some ''yesterday''\<rparr>"
  have c: "content item_bad_time = Some ?c" by (simp add: item_bad_time_def)
  have inc: "include_item cfg_labels item_bad_time" by code_simp
  have ok: "fromisoformat_sample (replace ''Z'' ''+00:00'' ''2024-01-02T10:00:00Z'')
       = Some (datetime_of 2024 1 2 10 0)" by code_simp
  have bad: "fromisoformat_sample (replace ''Z'' ''+00:00'' ''yesterday'') = None" by code_simp
  then have fail:
    "(\<exists>t. createdAt ?c = Some t \<and> t \<noteq> [] \<and> fromisoformat_sample (replace ''Z'' ''+00:00'' t) = None)
     \<or> (\<exists>t. closedAt ?c = Some t \<and> t \<noteq> [] \<and> fromisoformat_sample (replace ''Z'' ''+00:00'' t) = None)"
    by simp
  have d: "data (response_of [item_B2, item_bad_time]) =
      Some \<lparr>organization = Some \<lparr>p_title = Some ''Board'', p_items = [item_B2, item_bad_time]\<rparr>,
            repository = None\<rparr>"
    by (simp add: response_of_def)
  have p: "(if project_type cfg_labels = ''organization''
            then organization \<lparr>organization = Some \<lparr>p_title = Some ''Board'', p_items = [item_B2, item_bad_time]\<rparr>,
            repository = None\<rparr>
            else repository \<lparr>organization = Some \<lparr>p_title = Some ''Board'', p_items = [item_B2, item_bad_time]\<rparr>,
            repository = None\<rparr>) = Some \<lparr>p_title = Some ''Board'', p_items = [item_B2, item_bad_time]\<rparr>"
    by (simp add: project_type_def cfg_labels_def)
  have mem: "item_bad_time \<in> set (p_items \<lparr>p_title = Some ''Board'', p_items = [item_B2, item_bad_time]\<rparr>)"
    by simp
  have ent: "make_entry float_sample fromisoformat_sample cfg_labels item_bad_time ?c =
     \<lparr>title = ''Task'', story_points = 5 / 2, created_at = None, closed_at = None,
               state = Some ''CLOSED''\<rparr>"
    by code_simp
  from timestamp_failure_recovered[OF c inc fail d p mem, of float_sample
      "datetime_of 2024 1 1 0 0" "datetime_of 2024 1 5 0 0"] ent
  have "\<exists>pd. process_project_data float_sample fromisoformat_sample cfg_labels
              (Some (response_of [item_B2, item_bad_time]))
              (datetime_of 2024 1 1 0 0) (datetime_of 2024 1 5 0 0) = Some pd
           \<and> \<lparr>title = ''Task'', story_points = 5 / 2, created_at = None, closed_at = None,
               state = Some ''CLOSED''\<rparr> \<in> set (items pd)
           \<and> total_points pd = sum_list (map story_points (items pd))"
    by metis
  with c inc ok bad show ?thesis by blast
qed

subsection \<open>C9: the filter by label\<close>

text \<open>
  C9: when \<open>sprint_field\<close> is not configured, an item with a content is included if and
  only if \<open>sprint_label\<close> is not set or equals one of its label names up to case. Scenario
  B: with \<open>sprint_label = "Sprint 3"\<close>, the item labelled \<open>["Sprint 3", "bug"]\<close> is included
  and the item labelled \<open>["Sprint 2"]\<close> is not.
\<close>

theorem sprint_label_filter:
  "(\<not> truthy (cfg_sprint_field cfg) \<and> content it = Some c \<longrightarrow>
      (include_item cfg it \<longleftrightarrow>
         \<not> truthy (cfg_sprint_label cfg)
         \<or> (\<exists>l. cfg_sprint_label cfg = Some l \<and> (\<exists>lbl\<in>set (labels c). lower l = lower lbl)))
      \<and> fst (process_items float fi cfg [it] ([], 0)) =
          (if include_item cfg it then [make_entry float fi cfg it c] else []))
   \<and> cfg_sprint_field cfg_labels = None \<and> cfg_sprint_label cfg_labels = Some ''Sprint 3''
   \<and> item_labels item_B1 = [''Sprint 3'', ''bug''] \<and> include_item cfg_labels item_B1
   \<and> item_labels item_B2 = [''Sprint 2''] \<and> \<not> include_item cfg_labels item_B2
   \<and> fst (process_items float fi cfg_labels [item_B1, item_B2] ([], 0)) =
        [make_entry float fi cfg_labels item_B1 (issue [''Sprint 3'', ''bug''])]"
proof -
  have gen: "(include_item cfg it \<longleftrightarrow>
         \<not> truthy (cfg_sprint_label cfg)
         \<or> (\<exists>l. cfg_sprint_label cfg = Some l \<and> (\<exists>lbl\<in>set (labels c). lower l = lower lbl)))
      \<and> fst (process_items float fi cfg [it] ([], 0)) =
          (if include_item cfg it then [make_entry float fi cfg it c] else [])"
    if "\<not> truthy (cfg_sprint_field cfg) \<and> content it = Some c"
    using that include_item_labels[of cfg it] process_items_single[of it c float fi cfg]
    by (simp add: item_labels_def)
  have b1: "include_item cfg_labels item_B1" by code_simp
  have b2: "\<not> include_item cfg_labels item_B2" by code_simp
  have "fst (process_items float fi cfg_labels [item_B1, item_B2] ([], 0)) =
        [make_entry float fi cfg_labels item_B1 (issue [''Sprint 3'', ''bug''])]"
    using b1 b2
    by (simp add: process_items_result normalize_item_def
          item_B1_def item_B2_def)
  moreover have "cfg_sprint_field cfg_labels = None"
    and "cfg_sprint_label cfg_labels = Some ''Sprint 3''"
    and "item_labels item_B1 = [''Sprint 3'', ''bug'']"
    and "item_labels item_B2 = [''Sprint 2'']"
    by (simp_all add: cfg_labels_def item_labels_def item_B1_def item_B2_def issue_def)
  ultimately show ?thesis using gen b1 b2 by blast
qed

theorem sprint_label_filter_witness:
  "\<not> truthy (cfg_sprint_field cfg_labels)
   \<and> content item_B1 = Some (issue [''Sprint 3'', ''bug''])
   \<and> cfg_sprint_label cfg_labels = Some ''Sprint 3''
   \<and> lower ''Sprint 3'' = lower (hd (labels (issue [''Sprint 3'', ''bug''])))
   \<and> fst (process_items float_sample fromisoformat_sample cfg_labels [item_B1] ([], 0)) =
        [make_entry float_sample fromisoformat_sample cfg_labels item_B1
           (issue [''Sprint 3'', ''bug''])]"
proof -
  have h: "\<not> truthy (cfg_sprint_field cfg_labels)
           \<and> content item_B1 = Some (issue [''Sprint 3'', ''bug''])"
    by (simp add: cfg_labels_def item_B1_def)
  have l: "cfg_sprint_label cfg_labels = Some ''Sprint 3''"
    by (simp add: cfg_labels_def)
  have e: "lower ''Sprint 3'' = lower (hd (labels (issue [''Sprint 3'', ''bug''])))"
    by (simp add: issue_def)
  have "\<exists>lbl\<in>set (labels (issue [''Sprint 3'', ''bug''])). lower ''Sprint 3'' = lower lbl"
    by (simp add: issue_def)
  with sprint_label_filter[of cfg_labels item_B1 "issue [''Sprint 3'', ''bug'']"
      float_sample fromisoformat_sample] h l
  have "fst (process_items float_sample fromisoformat_sample cfg_labels [item_B1] ([], 0)) =
        [make_entry float_sample fromisoformat_sample cfg_labels item_B1
           (issue [''Sprint 3'', ''bug''])]"
    by (simp del: process_items.simps)
  with h l e show ?thesis by blast
qed

subsection \<open>C10: the path of the HTML document\<close>

text \<open>
  C10 says that the HTML document is written at \<open>save_path\<close> with its extension replaced
  by \<open>.html\<close>. The code replaces the text \<open>.png\<close> wherever it occurs: for \<open>burndown.jpg\<close>
  the HTML document and the image are written to the same file, and a \<open>.png\<close> inside a
  directory name is replaced too. Only for a path such as \<open>burndown.png\<close> do the two agree.
\<close>

theorem plotly_html_path_not_png:
  "create_plotly_chart True series_A (Some ''Board'') (Some ''burndown.jpg'') =
     [WriteHtml ''burndown.jpg'', WriteImage ''burndown.jpg'', FigShow]
   \<and> create_plotly_chart True series_A (Some ''Board'') (Some ''plots.png.d/sprint.png'') =
     [WriteHtml ''plots.html.d/sprint.html'', WriteImage ''plots.png.d/sprint.png'', FigShow]
   \<and> create_plotly_chart True series_A (Some ''Board'') (Some ''burndown.png'') =
     [WriteHtml ''burndown.html'', WriteImage ''burndown.png'', FigShow]"
  by code_simp

end
